theory Spec2Isabelle
  imports Complex_Main
begin

section \<open>Number values of the host language\<close>

text \<open>
  The calculation layer of CCU Rounder works on JavaScript numbers. A number value is
  modelled as a finite real, one of the two infinities, or NaN. Finite arithmetic is exact:
  rounding to the nearest double, overflow and the sign of zero are outside this model.
  The special values follow IEEE 754 as JavaScript exposes it.
\<close>

datatype jsnum = Fin real | PInf | NInf | NaN

fun isFinite :: "jsnum \<Rightarrow> bool" where
  "isFinite (Fin x) = True"
| "isFinite PInf = False"
| "isFinite NInf = False"
| "isFinite NaN = False"

fun jneg :: "jsnum \<Rightarrow> jsnum" where
  "jneg (Fin x) = Fin (- x)"
| "jneg PInf = NInf"
| "jneg NInf = PInf"
| "jneg NaN = NaN"

fun jadd :: "jsnum \<Rightarrow> jsnum \<Rightarrow> jsnum" where
  "jadd NaN b = NaN"
| "jadd a NaN = NaN"
| "jadd (Fin x) (Fin y) = Fin (x + y)"
| "jadd PInf NInf = NaN"
| "jadd NInf PInf = NaN"
| "jadd PInf b = PInf"
| "jadd NInf b = NInf"
| "jadd a PInf = PInf"
| "jadd a NInf = NInf"

definition jsub :: "jsnum \<Rightarrow> jsnum \<Rightarrow> jsnum" where
  "jsub a b = jadd a (jneg b)"

fun jmul :: "jsnum \<Rightarrow> jsnum \<Rightarrow> jsnum" where
  "jmul NaN b = NaN"
| "jmul a NaN = NaN"
| "jmul (Fin x) (Fin y) = Fin (x * y)"
| "jmul (Fin x) PInf = (if x = 0 then NaN else if 0 < x then PInf else NInf)"
| "jmul (Fin x) NInf = (if x = 0 then NaN else if 0 < x then NInf else PInf)"
| "jmul PInf (Fin y) = (if y = 0 then NaN else if 0 < y then PInf else NInf)"
| "jmul NInf (Fin y) = (if y = 0 then NaN else if 0 < y then NInf else PInf)"
| "jmul PInf PInf = PInf"
| "jmul PInf NInf = NInf"
| "jmul NInf PInf = NInf"
| "jmul NInf NInf = PInf"

text \<open>Division; a zero divisor is taken as \<open>+0\<close>.\<close>

fun jdiv :: "jsnum \<Rightarrow> jsnum \<Rightarrow> jsnum" where
  "jdiv NaN b = NaN"
| "jdiv a NaN = NaN"
| "jdiv (Fin x) (Fin y) =
     (if y \<noteq> 0 then Fin (x / y) else if x = 0 then NaN else if 0 < x then PInf else NInf)"
| "jdiv (Fin x) PInf = Fin 0"
| "jdiv (Fin x) NInf = Fin 0"
| "jdiv PInf (Fin y) = (if 0 \<le> y then PInf else NInf)"
| "jdiv NInf (Fin y) = (if 0 \<le> y then NInf else PInf)"
| "jdiv PInf b = NaN"
| "jdiv NInf b = NaN"

text \<open>\<open>Math.sqrt\<close>: NaN below zero.\<close>

fun jsqrt :: "jsnum \<Rightarrow> jsnum" where
  "jsqrt (Fin x) = (if x < 0 then NaN else Fin (sqrt x))"
| "jsqrt PInf = PInf"
| "jsqrt NInf = NaN"
| "jsqrt NaN = NaN"

text \<open>The comparison \<open>a <= b\<close>: false as soon as one side is NaN.\<close>

fun jle :: "jsnum \<Rightarrow> jsnum \<Rightarrow> bool" where
  "jle NaN b = False"
| "jle a NaN = False"
| "jle (Fin x) (Fin y) = (x \<le> y)"
| "jle NInf b = True"
| "jle a PInf = True"
| "jle PInf b = False"
| "jle a NInf = False"

text \<open>
  A value of type \<open>number | undefined\<close> is a \<open>jsnum option\<close>, \<open>None\<close> being
  \<open>undefined\<close>. \<open>truthy\<close> is the test behind \<open>x && y\<close> and \<open>x ? a : b\<close>, \<open>falsy\<close>
  the one behind \<open>!x\<close>: \<open>undefined\<close>, \<open>0\<close> and NaN are falsy, every other number is
  truthy. \<open>toNum\<close> is the coercion an arithmetic operator applies to its operand.
\<close>

fun truthy :: "jsnum option \<Rightarrow> bool" where
  "truthy None = False"
| "truthy (Some (Fin x)) = (x \<noteq> 0)"
| "truthy (Some NaN) = False"
| "truthy (Some PInf) = True"
| "truthy (Some NInf) = True"

fun falsy :: "jsnum option \<Rightarrow> bool" where
  "falsy None = True"
| "falsy (Some (Fin x)) = (x = 0)"
| "falsy (Some NaN) = True"
| "falsy (Some PInf) = False"
| "falsy (Some NInf) = False"

fun toNum :: "jsnum option \<Rightarrow> jsnum" where
  "toNum None = NaN"
| "toNum (Some a) = a"

subsection \<open>Strings to numbers\<close>

text \<open>
  \<open>Number(n)\<close> on a string follows the StringToNumber grammar of ECMAScript: white space
  is trimmed, the empty string is \<open>0\<close>, then comes a hexadecimal, octal or binary integer
  literal, or a signed decimal literal with optional fraction and exponent, or
  \<open>Infinity\<close>; anything else is NaN. Strings are byte strings here, so only the ASCII
  white space characters are trimmed.
\<close>

definition isStrWhiteSpace :: "char \<Rightarrow> bool" where
  "isStrWhiteSpace c = (let n = (of_char c :: nat) in (9 \<le> n \<and> n \<le> 13) \<or> n = 32)"

definition trimString :: "string \<Rightarrow> string" where
  "trimString s = rev (dropWhile isStrWhiteSpace (rev (dropWhile isStrWhiteSpace s)))"

definition isDigit :: "char \<Rightarrow> bool" where
  "isDigit c = (let n = (of_char c :: nat) in 48 \<le> n \<and> n \<le> 57)"

definition digitOf :: "char \<Rightarrow> nat" where
  "digitOf c = (let n = (of_char c :: nat) in
     if 48 \<le> n \<and> n \<le> 57 then n - 48
     else if 97 \<le> n \<and> n \<le> 102 then n - 87
     else if 65 \<le> n \<and> n \<le> 70 then n - 55
     else 36)"

definition digitsVal :: "nat \<Rightarrow> string \<Rightarrow> nat" where
  "digitsVal b ds = foldl (\<lambda>n c. b * n + digitOf c) 0 ds"

definition radixOf :: "char \<Rightarrow> nat" where
  "radixOf p = (if p = CHR ''x'' \<or> p = CHR ''X'' then 16
     else if p = CHR ''o'' \<or> p = CHR ''O'' then 8
     else if p = CHR ''b'' \<or> p = CHR ''B'' then 2
     else 0)"

definition nonDecimalLiteral :: "string \<Rightarrow> jsnum option" where
  "nonDecimalLiteral s = (case s of
       z # p # ds \<Rightarrow>
         if z = CHR ''0'' \<and> ds \<noteq> [] \<and> radixOf p \<noteq> 0 \<and> list_all (\<lambda>c. digitOf c < radixOf p) ds
         then Some (Fin (real (digitsVal (radixOf p) ds)))
         else None
     | _ \<Rightarrow> None)"

definition exponentPart :: "string \<Rightarrow> int option" where
  "exponentPart s = (case s of
       [] \<Rightarrow> Some 0
     | c # t \<Rightarrow>
         if c = CHR ''e'' \<or> c = CHR ''E'' then
           (let neg = (case t of d # u \<Rightarrow> d = CHR ''-'' | [] \<Rightarrow> False);
                ds = (case t of d # u \<Rightarrow> if d = CHR ''-'' \<or> d = CHR ''+'' then u else t | [] \<Rightarrow> [])
            in if ds \<noteq> [] \<and> list_all isDigit ds
               then Some (if neg then - int (digitsVal 10 ds) else int (digitsVal 10 ds))
               else None)
         else None)"

definition unsignedDecimal :: "string \<Rightarrow> jsnum" where
  "unsignedDecimal s =
     (if s = ''Infinity'' then PInf
      else
        let ip = takeWhile isDigit s;
            r = dropWhile isDigit s;
            dot = (case r of c # t \<Rightarrow> c = CHR ''.'' | [] \<Rightarrow> False);
            fp = (if dot then takeWhile isDigit (tl r) else []);
            rest = (if dot then dropWhile isDigit (tl r) else r)
        in if ip = [] \<and> fp = [] then NaN
           else (case exponentPart rest of
                   None \<Rightarrow> NaN
                 | Some e \<Rightarrow>
                     Fin ((real (digitsVal 10 ip) + real (digitsVal 10 fp) / 10 ^ length fp)
                          * (if 0 \<le> e then 10 ^ nat e else 1 / 10 ^ nat (- e)))))"

definition strDecimalLiteral :: "string \<Rightarrow> jsnum" where
  "strDecimalLiteral s = (case s of
       [] \<Rightarrow> NaN
     | c # t \<Rightarrow>
         if c = CHR ''+'' then unsignedDecimal t
         else if c = CHR ''-'' then jneg (unsignedDecimal t)
         else unsignedDecimal s)"

definition stringToNumber :: "string \<Rightarrow> jsnum" where
  "stringToNumber s =
     (let t = trimString s in
      if t = [] then Fin 0
      else (case nonDecimalLiteral t of Some v \<Rightarrow> v | None \<Rightarrow> strDecimalLiteral t))"

text \<open>
  A form field is a string or \<open>undefined\<close> (\<open>heightCm?: string\<close>);
  \<open>Number(undefined)\<close> is NaN.
\<close>

fun Number_js :: "string option \<Rightarrow> jsnum" where
  "Number_js None = NaN"
| "Number_js (Some s) = stringToNumber s"

text \<open>
  \<^verbatim>\<open>function clampNum(n: any): number | undefined {
    const x = Number(n);
    return Number.isFinite(x) ? x : undefined;
  }\<close>
\<close>

definition clampNum :: "string option \<Rightarrow> jsnum option" where
  "clampNum n = (let x = Number_js n in if isFinite x then Some x else None)"

section \<open>Drip calculator\<close>

text \<open>
  \<open>calcDose\<close> and \<open>calcRate\<close> take one object with four optional number fields,
  destructured in the parameter list; the four fields are the four arguments here, in the
  order of the source. Both start with the same line, the concentration of the bag:

  \<^verbatim>\<open>const mgPerMl = mgInBag && volumeMl ? mgInBag / volumeMl : undefined;\<close>
\<close>

definition mgPerMl :: "jsnum option \<Rightarrow> jsnum option \<Rightarrow> jsnum option" where
  "mgPerMl mgInBag volumeMl =
     (if truthy mgInBag \<and> truthy volumeMl
      then Some (jdiv (toNum mgInBag) (toNum volumeMl)) else None)"

text \<open>
  \<^verbatim>\<open>if (!mgPerMl || !rateMlHr || !weightKg || mgPerMl <= 0 || weightKg <= 0) return undefined;
  return (rateMlHr * (mgPerMl * 1000)) / (60 * weightKg);\<close>
\<close>

definition calcDose ::
  "jsnum option \<Rightarrow> jsnum option \<Rightarrow> jsnum option \<Rightarrow> jsnum option \<Rightarrow> jsnum option" where
  "calcDose mgInBag volumeMl rateMlHr weightKg =
     (let c = mgPerMl mgInBag volumeMl
      in if falsy c \<or> falsy rateMlHr \<or> falsy weightKg
            \<or> jle (toNum c) (Fin 0) \<or> jle (toNum weightKg) (Fin 0)
         then None
         else Some (jdiv (jmul (toNum rateMlHr) (jmul (toNum c) (Fin 1000)))
                         (jmul (Fin 60) (toNum weightKg))))"

text \<open>
  \<^verbatim>\<open>if (!mgPerMl || !doseMcgKgMin || !weightKg || mgPerMl <= 0 || weightKg <= 0) return undefined;
  return (doseMcgKgMin * 60 * weightKg) / (mgPerMl * 1000);\<close>
\<close>

definition calcRate ::
  "jsnum option \<Rightarrow> jsnum option \<Rightarrow> jsnum option \<Rightarrow> jsnum option \<Rightarrow> jsnum option" where
  "calcRate mgInBag volumeMl doseMcgKgMin weightKg =
     (let c = mgPerMl mgInBag volumeMl
      in if falsy c \<or> falsy doseMcgKgMin \<or> falsy weightKg
            \<or> jle (toNum c) (Fin 0) \<or> jle (toNum weightKg) (Fin 0)
         then None
         else Some (jdiv (jmul (jmul (toNum doseMcgKgMin) (Fin 60)) (toNum weightKg))
                         (jmul (toNum c) (Fin 1000))))"

section \<open>Hemodynamic calculations\<close>

text \<open>
  The form state of the hemodynamics tab: \<open>sex\<close> is one of \<open>"M"\<close>, \<open>"F"\<close>, \<open>""\<close> (unspecified),
  every other field an optional string as typed by the user.
\<close>

datatype Sex = Male | Female | Unspecified

record HemoInputs =
  sex :: Sex
  heightCm :: "string option"
  weightKg :: "string option"
  hb :: "string option"
  hr :: "string option"
  sbp :: "string option"
  dbp :: "string option"
  cvp :: "string option"
  pasp :: "string option"
  padp :: "string option"
  pcwp :: "string option"
  sao2 :: "string option"
  svo2 :: "string option"

definition defaultHemo :: HemoInputs where
  "defaultHemo = \<lparr> sex = Unspecified, heightCm = None, weightKg = None, hb = None, hr = None,
     sbp = None, dbp = None, cvp = None, pasp = None, padp = None, pcwp = None,
     sao2 = None, svo2 = None \<rparr>"

text \<open>
  The body of \<open>useHemodynamics(state)\<close> is a chain of twelve \<open>useMemo\<close> constants, each
  the value of its callback; each is a function of \<open>state\<close> here, under the name it has
  in the source (\<open>map\<close> is \<open>map_val\<close>).

  \<^verbatim>\<open>const h = clampNum(heightCm);
  const w = clampNum(weightKg);
  if (!h || !w) return undefined;
  return Math.sqrt((h * w) / 3600);\<close>
\<close>

definition bsa :: "HemoInputs \<Rightarrow> jsnum option" where
  "bsa state =
     (let h = clampNum (heightCm state); w = clampNum (weightKg state)
      in if falsy h \<or> falsy w then None
         else Some (jsqrt (jdiv (jmul (toNum h) (toNum w)) (Fin 3600))))"

text \<open>
  \<^verbatim>\<open>const s = clampNum(sbp);
  const d = clampNum(dbp);
  if (!s || !d) return undefined;
  return d + (s - d) / 3;\<close>
\<close>

definition map_val :: "HemoInputs \<Rightarrow> jsnum option" where
  "map_val state =
     (let s = clampNum (sbp state); d = clampNum (dbp state)
      in if falsy s \<or> falsy d then None
         else Some (jadd (toNum d) (jdiv (jsub (toNum s) (toNum d)) (Fin 3))))"

text \<open>
  \<^verbatim>\<open>const ps = clampNum(pasp);
  const pd = clampNum(padp);
  if (!ps || !pd) return undefined;
  return (ps + 2 * pd) / 3;\<close>
\<close>

definition mPAP :: "HemoInputs \<Rightarrow> jsnum option" where
  "mPAP state =
     (let ps = clampNum (pasp state); pd = clampNum (padp state)
      in if falsy ps \<or> falsy pd then None
         else Some (jdiv (jadd (toNum ps) (jmul (Fin 2) (toNum pd))) (Fin 3)))"

text \<open>
  \<^verbatim>\<open>const H = clampNum(hb);
  const Sa = clampNum(sao2);
  if (!H || !Sa) return undefined;
  return 1.34 * H * (Sa / 100);\<close>
\<close>

definition caO2 :: "HemoInputs \<Rightarrow> jsnum option" where
  "caO2 state =
     (let H = clampNum (hb state); Sa = clampNum (sao2 state)
      in if falsy H \<or> falsy Sa then None
         else Some (jmul (jmul (Fin 1.34) (toNum H)) (jdiv (toNum Sa) (Fin 100))))"

text \<open>
  \<^verbatim>\<open>const H = clampNum(hb);
  const Sv = clampNum(svo2);
  if (!H || !Sv) return undefined;
  return 1.34 * H * (Sv / 100);\<close>
\<close>

definition cvO2 :: "HemoInputs \<Rightarrow> jsnum option" where
  "cvO2 state =
     (let H = clampNum (hb state); Sv = clampNum (svo2 state)
      in if falsy H \<or> falsy Sv then None
         else Some (jmul (jmul (Fin 1.34) (toNum H)) (jdiv (toNum Sv) (Fin 100))))"

text \<open>
  \<^verbatim>\<open>if (!bsa) return undefined;
  return 125 * bsa;\<close>
\<close>

definition vo2 :: "HemoInputs \<Rightarrow> jsnum option" where
  "vo2 state =
     (if falsy (bsa state) then None
      else Some (jmul (Fin 125) (toNum (bsa state))))"

text \<open>
  \<^verbatim>\<open>if (vo2 == null || caO2 == null || cvO2 == null) return undefined;
  const delta = caO2 - cvO2;
  if (delta <= 0) return undefined;
  return vo2 / (delta * 10);\<close>
\<close>

definition co :: "HemoInputs \<Rightarrow> jsnum option" where
  "co state =
     (if vo2 state = None \<or> caO2 state = None \<or> cvO2 state = None then None
      else
        let delta = jsub (toNum (caO2 state)) (toNum (cvO2 state))
        in if jle delta (Fin 0) then None
           else Some (jdiv (toNum (vo2 state)) (jmul delta (Fin 10))))"

text \<open>
  \<^verbatim>\<open>if (co == null || bsa == null || bsa === 0) return undefined;
  return co / bsa;\<close>
\<close>

definition ci :: "HemoInputs \<Rightarrow> jsnum option" where
  "ci state =
     (if co state = None \<or> bsa state = None \<or> bsa state = Some (Fin 0) then None
      else Some (jdiv (toNum (co state)) (toNum (bsa state))))"

text \<open>
  \<^verbatim>\<open>const C = co;
  const H = clampNum(hr);
  if (!C || !H || H === 0) return undefined;
  return (C * 1000) / H;\<close>
\<close>

definition sv :: "HemoInputs \<Rightarrow> jsnum option" where
  "sv state =
     (let C = co state; H = clampNum (hr state)
      in if falsy C \<or> falsy H \<or> H = Some (Fin 0) then None
         else Some (jdiv (jmul (toNum C) (Fin 1000)) (toNum H)))"

text \<open>
  \<^verbatim>\<open>const M = map;
  const C = co;
  const Cv = clampNum(cvp);
  if (M == null || C == null || Cv == null || C === 0) return undefined;
  return (80 * (M - Cv)) / C;\<close>
\<close>

definition svr :: "HemoInputs \<Rightarrow> jsnum option" where
  "svr state =
     (let M = map_val state; C = co state; Cv = clampNum (cvp state)
      in if M = None \<or> C = None \<or> Cv = None \<or> C = Some (Fin 0) then None
         else Some (jdiv (jmul (Fin 80) (jsub (toNum M) (toNum Cv))) (toNum C)))"

text \<open>
  The two pulmonary resistances read the form field \<open>pcwp\<close> itself, a string, not a
  \<open>clampNum\<close> of it: \<open>pcwp == null\<close> tests the field for \<open>undefined\<close>, and the
  subtraction converts the string as \<open>Number\<close> does.

  \<^verbatim>\<open>if (mPAP == null || co == null || pcwp == null || co === 0) return undefined;
  return (80 * (mPAP - pcwp)) / co;\<close>
\<close>

definition pvr :: "HemoInputs \<Rightarrow> jsnum option" where
  "pvr state =
     (if mPAP state = None \<or> co state = None \<or> pcwp state = None \<or> co state = Some (Fin 0)
      then None
      else Some (jdiv (jmul (Fin 80) (jsub (toNum (mPAP state)) (Number_js (pcwp state))))
                      (toNum (co state))))"

text \<open>
  \<^verbatim>\<open>if (mPAP == null || co == null || pcwp == null || co === 0) return undefined;
  return (mPAP - pcwp) / co;\<close>
\<close>

definition pvrWU :: "HemoInputs \<Rightarrow> jsnum option" where
  "pvrWU state =
     (if mPAP state = None \<or> co state = None \<or> pcwp state = None \<or> co state = Some (Fin 0)
      then None
      else Some (jdiv (jsub (toNum (mPAP state)) (Number_js (pcwp state))) (toNum (co state))))"

text \<open>
  The function ends after the last constant, with no \<open>return\<close> statement:

  \<^verbatim>\<open>const pvrWU = useMemo(() => {
    if (mPAP == null || co == null || pcwp == null || co === 0) return undefined;
    return (mPAP - pcwp) / co;
  }, [mPAP, co, pcwp]);
  }\<close>

  so a call evaluates the twelve constants and yields \<open>undefined\<close>. Its caller expects an
  object and reads \<open>results.bsa\<close>, \<open>results.map\<close>, \<open>results.mPAP\<close>, \<open>results.caO2\<close>,
  \<open>results.cvO2\<close>, \<open>results.vo2\<close>, \<open>results.co\<close>, \<open>results.ci\<close>, \<open>results.sv\<close>,
  \<open>results.svr\<close> and \<open>results.pvrWU\<close> from it; \<open>HemoResults\<close> is that object.
\<close>

record HemoResults =
  res_bsa :: "jsnum option"
  res_map :: "jsnum option"
  res_mPAP :: "jsnum option"
  res_caO2 :: "jsnum option"
  res_cvO2 :: "jsnum option"
  res_vo2 :: "jsnum option"
  res_co :: "jsnum option"
  res_ci :: "jsnum option"
  res_sv :: "jsnum option"
  res_svr :: "jsnum option"
  res_pvrWU :: "jsnum option"

definition useHemodynamics :: "HemoInputs \<Rightarrow> HemoResults option" where
  "useHemodynamics state =
     (let c_bsa = bsa state; c_map = map_val state; c_mPAP = mPAP state;
          c_caO2 = caO2 state; c_cvO2 = cvO2 state; c_vo2 = vo2 state; c_co = co state;
          c_ci = ci state; c_sv = sv state; c_svr = svr state; c_pvr = pvr state;
          c_pvrWU = pvrWU state
      in None)"

text \<open>
  Reading a property of \<open>undefined\<close> raises a \<open>TypeError\<close>. \<open>App\<close> calls
  \<open>const results = useHemodynamics(hemo)\<close> and its render reads \<open>results.bsa\<close> first.
\<close>

datatype error = TypeError

fun getProperty :: "'r option \<Rightarrow> ('r \<Rightarrow> 'a) \<Rightarrow> error + 'a" where
  "getProperty None f = Inl TypeError"
| "getProperty (Some r) f = Inr (f r)"

definition App_results_bsa :: "HemoInputs \<Rightarrow> error + jsnum option" where
  "App_results_bsa hemo = (let results = useHemodynamics hemo in getProperty results res_bsa)"

section \<open>Sample inputs\<close>

text \<open>
  A complete bedside record: 180 cm, 80 kg, Hb 14 g/dL, heart rate 70, blood pressure
  120/80, CVP 0, pulmonary artery pressure 40/20, wedge pressure 10, saturations 98 and 70.
\<close>

definition hemoExample :: HemoInputs where
  "hemoExample = \<lparr> sex = Male, heightCm = Some ''180'', weightKg = Some ''80'',
     hb = Some ''14'', hr = Some ''70'', sbp = Some ''120'', dbp = Some ''80'',
     cvp = Some ''0'', pasp = Some ''40'', padp = Some ''20'', pcwp = Some ''10'',
     sao2 = Some ''98'', svo2 = Some ''70'' \<rparr>"

section \<open>Facts about numbers and parsing\<close>

lemmas parse_defs = stringToNumber_def trimString_def isStrWhiteSpace_def
  nonDecimalLiteral_def radixOf_def digitOf_def digitsVal_def strDecimalLiteral_def
  unsignedDecimal_def exponentPart_def isDigit_def

lemma falsy_iff [simp]: "falsy x = (\<not> truthy x)"
  by (cases x rule: truthy.cases) simp_all

lemma isFinite_iff: "isFinite a = (\<exists>x. a = Fin x)"
  by (cases a) simp_all

lemma clampNum_Fin: "clampNum n = Some a \<Longrightarrow> \<exists>x. a = Fin x"
  by (cases "Number_js n") (auto simp add: clampNum_def)

lemma truthy_clampNum: "truthy (clampNum n) = (\<exists>x. clampNum n = Some (Fin x) \<and> x \<noteq> 0)"
proof (cases "clampNum n")
  case None
  then show ?thesis by simp
next
  case (Some a)
  then obtain x where "a = Fin x" using clampNum_Fin by blast
  with Some show ?thesis by simp
qed

lemma clampNum_samples:
  "clampNum (Some ''180'') = Some (Fin 180)"
  "clampNum (Some ''80'') = Some (Fin 80)"
  "clampNum (Some ''-80'') = Some (Fin (- 80))"
  "clampNum (Some ''14'') = Some (Fin 14)"
  "clampNum (Some ''70'') = Some (Fin 70)"
  "clampNum (Some ''120'') = Some (Fin 120)"
  "clampNum (Some ''0'') = Some (Fin 0)"
  "clampNum (Some ''40'') = Some (Fin 40)"
  "clampNum (Some ''20'') = Some (Fin 20)"
  "clampNum (Some ''10'') = Some (Fin 10)"
  "clampNum (Some ''98'') = Some (Fin 98)"
  "clampNum (Some ''abc'') = None"
  "clampNum (Some ''Infinity'') = None"
  by (simp_all add: clampNum_def parse_defs)

lemma Number_js_samples:
  "Number_js (Some ''abc'') = NaN"
  "Number_js (Some ''Infinity'') = PInf"
  by (simp_all add: parse_defs)

section \<open>Facts about the drip calculator\<close>

lemma mgPerMl_Fin:
  "mgPerMl (Some (Fin m)) (Some (Fin v)) = (if m \<noteq> 0 \<and> v \<noteq> 0 then Some (Fin (m / v)) else None)"
  by (simp add: mgPerMl_def)

lemma mgPerMl_None: "mgPerMl None v = None" "mgPerMl m None = None"
  by (simp_all add: mgPerMl_def)

lemma calcDose_Fin:
  "calcDose (Some (Fin m)) (Some (Fin v)) (Some (Fin r)) (Some (Fin k)) =
     (if m \<noteq> 0 \<and> v \<noteq> 0 \<and> r \<noteq> 0 \<and> 0 < m / v \<and> 0 < k
      then Some (Fin (r * (m / v * 1000) / (60 * k))) else None)"
  by (auto simp add: calcDose_def mgPerMl_def Let_def)

lemma calcRate_Fin:
  "calcRate (Some (Fin m)) (Some (Fin v)) (Some (Fin d)) (Some (Fin k)) =
     (if m \<noteq> 0 \<and> v \<noteq> 0 \<and> d \<noteq> 0 \<and> 0 < m / v \<and> 0 < k
      then Some (Fin (d * 60 * k / (m / v * 1000))) else None)"
  by (auto simp add: calcRate_def mgPerMl_def Let_def)

lemma calcDose_None:
  "calcDose None v r k = None" "calcDose m None r k = None"
  "calcDose m v None k = None" "calcDose m v r None = None"
  by (simp_all add: calcDose_def mgPerMl_def Let_def)

lemma calcRate_None:
  "calcRate None v d k = None" "calcRate m None d k = None"
  "calcRate m v None k = None" "calcRate m v d None = None"
  by (simp_all add: calcRate_def mgPerMl_def Let_def)

lemma no_concentration_no_result:
  assumes "mgPerMl m v = None \<or> (\<exists>c. mgPerMl m v = Some (Fin c) \<and> c \<le> 0)"
  shows "calcDose m v r k = None" and "calcRate m v d k = None"
  using assms by (auto simp add: calcDose_def calcRate_def Let_def)

section \<open>Properties of the drip calculator\<close>

text \<open>
  C1. Round trip: for positive drug mass, diluent volume, patient weight and infusion rate,
  the rate computed by \<open>calcRate\<close> from the dose that \<open>calcDose\<close> gives for that rate,
  with the same bag and weight, is the original rate (finite numbers are exact reals here).
\<close>

theorem calcRate_calcDose_roundtrip:
  assumes "0 < mg" and "0 < vol" and "0 < w" and "0 < rate"
  shows "calcRate (Some (Fin mg)) (Some (Fin vol))
           (calcDose (Some (Fin mg)) (Some (Fin vol)) (Some (Fin rate)) (Some (Fin w)))
           (Some (Fin w))
         = Some (Fin rate)"
  using assms by (simp add: calcRate_Fin calcDose_Fin)

theorem calcRate_calcDose_roundtrip_witness:
  "(0::real) < 4 \<and> (0::real) < 250 \<and> (0::real) < 70 \<and> (0::real) < 5
   \<and> calcRate (Some (Fin 4)) (Some (Fin 250))
        (calcDose (Some (Fin 4)) (Some (Fin 250)) (Some (Fin 5)) (Some (Fin 70)))
        (Some (Fin 70))
      = Some (Fin 5)"
  using calcRate_calcDose_roundtrip [of 4 250 70 5] by simp

text \<open>
  C6, as the code has it. With drug mass, diluent volume, infusion rate and weight each
  absent or a finite number, \<open>calcDose\<close> returns a dose exactly when all four are present,
  the rate is not zero, the weight is positive and the concentration mass / volume is
  positive (so the volume is not zero); the dose is then
  rate \<times> concentration \<times> 1000 / (60 \<times> weight). In every other case, a rate of
  zero included, the result is absent.
\<close>

theorem calcDose_guard:
  "calcDose (map_option Fin mg) (map_option Fin vol) (map_option Fin rate) (map_option Fin w) =
     (case (mg, vol, rate, w) of
        (Some m, Some v, Some r, Some k) \<Rightarrow>
          if r \<noteq> 0 \<and> 0 < k \<and> v \<noteq> 0 \<and> 0 < m / v
          then Some (Fin (r * (m / v) * 1000 / (60 * k)))
          else None
      | _ \<Rightarrow> None)"
proof (cases mg; cases vol; cases rate; cases w)
  fix m v r k
  assume "mg = Some m" "vol = Some v" "rate = Some r" "w = Some k"
  then show ?thesis by (auto simp add: calcDose_Fin)
qed (simp_all add: calcDose_None)

theorem calcDose_guard_witness:
  "calcDose (Some (Fin 4)) (Some (Fin 250)) (Some (Fin 5)) (Some (Fin 70))
     = Some (Fin (5 * (4 / 250) * 1000 / (60 * 70)))
   \<and> calcDose (Some (Fin 4)) (Some (Fin 250)) None (Some (Fin 70)) = None"
  using calcDose_guard [of "Some 4" "Some 250" "Some 5" "Some 70"]
    calcDose_guard [of "Some 4" "Some 250" None "Some 70"]
  by simp

text \<open>
  The claim as first stated promises a dose whenever the four inputs are present, the
  weight is positive and the concentration is positive. A rate of zero meets all of that
  and gets no dose: \<open>!rateMlHr\<close> holds for \<open>0\<close>.
\<close>

theorem calcDose_zero_rate_absent:
  "(0::real) < 70 \<and> (0::real) < 4 / 250
   \<and> calcDose (Some (Fin 4)) (Some (Fin 250)) (Some (Fin 0)) (Some (Fin 70)) = None"
  by (simp add: calcDose_def mgPerMl_def)

text \<open>
  C8, as the code has it. The concentration intermediate is defined exactly when drug
  mass and diluent volume are both present and both different from zero, and is then
  mass / volume whatever the signs. Whenever it is undefined or not positive (a volume of
  zero, a negative volume with a positive mass), \<open>calcDose\<close> and \<open>calcRate\<close> both
  return absent, for any rate, dose and weight.
\<close>

theorem concentration_guard:
  "mgPerMl (map_option Fin mg) (map_option Fin vol) =
     (case (mg, vol) of
        (Some m, Some v) \<Rightarrow> if m \<noteq> 0 \<and> v \<noteq> 0 then Some (Fin (m / v)) else None
      | _ \<Rightarrow> None)
   \<and> ((mgPerMl (map_option Fin mg) (map_option Fin vol) = None
         \<or> (\<exists>c. mgPerMl (map_option Fin mg) (map_option Fin vol) = Some (Fin c) \<and> c \<le> 0))
        \<longrightarrow> calcDose (map_option Fin mg) (map_option Fin vol) rate w = None
            \<and> calcRate (map_option Fin mg) (map_option Fin vol) dose w = None)"
proof
  show "mgPerMl (map_option Fin mg) (map_option Fin vol) =
     (case (mg, vol) of
        (Some m, Some v) \<Rightarrow> if m \<noteq> 0 \<and> v \<noteq> 0 then Some (Fin (m / v)) else None
      | _ \<Rightarrow> None)"
    by (cases mg; cases vol) (simp_all add: mgPerMl_Fin mgPerMl_None)
next
  show "(mgPerMl (map_option Fin mg) (map_option Fin vol) = None
         \<or> (\<exists>c. mgPerMl (map_option Fin mg) (map_option Fin vol) = Some (Fin c) \<and> c \<le> 0))
        \<longrightarrow> calcDose (map_option Fin mg) (map_option Fin vol) rate w = None
            \<and> calcRate (map_option Fin mg) (map_option Fin vol) dose w = None"
    using no_concentration_no_result by blast
qed

theorem concentration_guard_witness:
  "mgPerMl (Some (Fin 4)) (Some (Fin (- 250))) = Some (Fin (- (4 / 250)))
   \<and> - (4 / 250) \<le> (0::real)
   \<and> calcDose (Some (Fin 4)) (Some (Fin (- 250))) (Some (Fin 5)) (Some (Fin 70)) = None
   \<and> calcRate (Some (Fin 4)) (Some (Fin (- 250))) (Some (Fin 0.3)) (Some (Fin 70)) = None"
  using concentration_guard [of "Some 4" "Some (- 250)" "Some (Fin 5)" "Some (Fin 70)"
      "Some (Fin 0.3)"]
  by simp

text \<open>
  The claim as first stated makes every diluent volume at or below zero give absent
  results. A negative volume with a negative mass has a positive concentration, and both
  functions return a number.
\<close>

theorem calcDose_negative_volume_present:
  "(- 250::real) \<le> 0
   \<and> mgPerMl (Some (Fin (- 4))) (Some (Fin (- 250))) = Some (Fin (4 / 250))
   \<and> calcDose (Some (Fin (- 4))) (Some (Fin (- 250))) (Some (Fin 5)) (Some (Fin 70))
       = Some (Fin (5 * (4 / 250) * 1000 / (60 * 70)))
   \<and> calcRate (Some (Fin (- 4))) (Some (Fin (- 250))) (Some (Fin 0.3)) (Some (Fin 70))
       = Some (Fin 78.75)"
  by (simp add: calcDose_def calcRate_def mgPerMl_def)

text \<open>
  C9. The worked scenario: 4 mg in 250 mL, a target dose of 0.3 mcg/kg/min and 70 kg give a
  rate of 78.75 mL/hr.
\<close>

theorem calcRate_worked_scenario:
  "calcRate (Some (Fin 4)) (Some (Fin 250)) (Some (Fin 0.3)) (Some (Fin 70)) = Some (Fin 78.75)"
  by (simp add: calcRate_def mgPerMl_def)

section \<open>Facts about the hemodynamic chain\<close>

lemma bsa_Some: "bsa state = Some a \<Longrightarrow> a = NaN \<or> (\<exists>x. a = Fin x \<and> 0 < x)"
  by (auto simp add: bsa_def Let_def truthy_clampNum split: if_splits)

lemma vo2_Some:
  assumes "vo2 state = Some a"
  shows "\<exists>x. a = Fin x \<and> 0 < x"
proof -
  from assms obtain b where b: "bsa state = Some b" "truthy (Some b)" "a = jmul (Fin 125) b"
    by (cases "bsa state") (auto simp add: vo2_def split: if_splits)
  from bsa_Some [OF b(1)] b(2) obtain x where "b = Fin x" "0 < x"
    by auto
  with b(3) show ?thesis by simp
qed

lemma caO2_Some: "caO2 state = Some a \<Longrightarrow> \<exists>x. a = Fin x"
  unfolding isFinite_iff [symmetric]
  by (auto simp add: caO2_def Let_def truthy_clampNum split: if_splits)

lemma cvO2_Some: "cvO2 state = Some a \<Longrightarrow> \<exists>x. a = Fin x"
  unfolding isFinite_iff [symmetric]
  by (auto simp add: cvO2_def Let_def truthy_clampNum split: if_splits)

lemma map_val_Some: "map_val state = Some a \<Longrightarrow> \<exists>x. a = Fin x"
  unfolding isFinite_iff [symmetric]
  by (auto simp add: map_val_def Let_def truthy_clampNum jsub_def split: if_splits)

lemma mPAP_Some: "mPAP state = Some a \<Longrightarrow> \<exists>x. a = Fin x"
  unfolding isFinite_iff [symmetric]
  by (auto simp add: mPAP_def Let_def truthy_clampNum split: if_splits)

lemma co_Fin:
  assumes "vo2 state = Some (Fin v)" "caO2 state = Some (Fin a)" "cvO2 state = Some (Fin b)"
  shows "co state = (if 0 < a - b then Some (Fin (v / ((a - b) * 10))) else None)"
  using assms by (simp add: co_def jsub_def Let_def)

lemma co_Some:
  assumes "co state = Some c"
  shows "\<exists>x. c = Fin x \<and> 0 < x"
proof -
  from assms obtain V A B
    where s: "vo2 state = Some V" "caO2 state = Some A" "cvO2 state = Some B"
    by (auto simp add: co_def split: if_splits)
  then obtain v a b where f: "V = Fin v" "0 < v" "A = Fin a" "B = Fin b"
    using vo2_Some caO2_Some cvO2_Some by blast
  with s assms show ?thesis by (auto simp add: co_Fin split: if_splits)
qed

text \<open>
  Absence travels down the chain: a constant is \<open>undefined\<close> as soon as one of the values
  it reads is. For the form fields read through \<open>clampNum\<close>, absent means that
  \<open>clampNum\<close> gives \<open>undefined\<close>; for \<open>pcwp\<close>, read as it is, only that the field itself
  is \<open>undefined\<close>.
\<close>

lemma dependency_propagation:
  shows "clampNum (heightCm state) = None \<or> clampNum (weightKg state) = None
           \<Longrightarrow> bsa state = None"
    and "clampNum (sbp state) = None \<or> clampNum (dbp state) = None \<Longrightarrow> map_val state = None"
    and "clampNum (pasp state) = None \<or> clampNum (padp state) = None \<Longrightarrow> mPAP state = None"
    and "clampNum (hb state) = None \<or> clampNum (sao2 state) = None \<Longrightarrow> caO2 state = None"
    and "clampNum (hb state) = None \<or> clampNum (svo2 state) = None \<Longrightarrow> cvO2 state = None"
    and "bsa state = None \<Longrightarrow> vo2 state = None"
    and "vo2 state = None \<or> caO2 state = None \<or> cvO2 state = None \<Longrightarrow> co state = None"
    and "co state = None \<or> bsa state = None \<Longrightarrow> ci state = None"
    and "co state = None \<or> clampNum (hr state) = None \<Longrightarrow> sv state = None"
    and "map_val state = None \<or> co state = None \<or> clampNum (cvp state) = None
           \<Longrightarrow> svr state = None"
    and "mPAP state = None \<or> co state = None \<or> pcwp state = None
           \<Longrightarrow> pvr state = None \<and> pvrWU state = None"
  by (auto simp add: bsa_def map_val_def mPAP_def caO2_def cvO2_def vo2_def co_def ci_def
        sv_def svr_def pvr_def pvrWU_def Let_def)

subsection \<open>The sample record\<close>

lemma hemoExample_fields:
  "heightCm hemoExample = Some ''180''" "weightKg hemoExample = Some ''80''"
  "hb hemoExample = Some ''14''" "hr hemoExample = Some ''70''"
  "sbp hemoExample = Some ''120''" "dbp hemoExample = Some ''80''"
  "cvp hemoExample = Some ''0''" "pasp hemoExample = Some ''40''"
  "padp hemoExample = Some ''20''" "pcwp hemoExample = Some ''10''"
  "sao2 hemoExample = Some ''98''" "svo2 hemoExample = Some ''70''"
  by (simp_all add: hemoExample_def)

lemma hemoExample_locals:
  "bsa hemoExample = Some (Fin 2)"
  "map_val hemoExample = Some (Fin (280 / 3))"
  "mPAP hemoExample = Some (Fin (80 / 3))"
  "caO2 hemoExample = Some (Fin 18.3848)"
  "cvO2 hemoExample = Some (Fin 13.132)"
  by (simp_all add: bsa_def map_val_def mPAP_def caO2_def cvO2_def jsub_def
        hemoExample_fields clampNum_samples)

lemma hemoExample_vo2: "vo2 hemoExample = Some (Fin 250)"
  by (simp add: vo2_def hemoExample_locals)

lemma hemoExample_co: "co hemoExample = Some (Fin (250 / 52.528))"
  by (simp add: co_def hemoExample_vo2 hemoExample_locals jsub_def)

lemma pcwp_update_inputs:
  "bsa (state\<lparr>pcwp := p\<rparr>) = bsa state"
  "mPAP (state\<lparr>pcwp := p\<rparr>) = mPAP state"
  "caO2 (state\<lparr>pcwp := p\<rparr>) = caO2 state"
  "cvO2 (state\<lparr>pcwp := p\<rparr>) = cvO2 state"
  by (simp_all add: bsa_def mPAP_def caO2_def cvO2_def)

lemma pcwp_update_vo2: "vo2 (state\<lparr>pcwp := p\<rparr>) = vo2 state"
  by (simp add: vo2_def pcwp_update_inputs)

lemma pcwp_update_co: "co (state\<lparr>pcwp := p\<rparr>) = co state"
  by (simp add: co_def Let_def pcwp_update_inputs pcwp_update_vo2)

section \<open>Properties of the hemodynamic calculations\<close>

text \<open>
  C2. \<open>useHemodynamics\<close> is to return, for every record of inputs and without raising, a
  record of the twelve results. The function computes the twelve values and returns
  nothing: on the sample record, as on any other, the call yields \<open>undefined\<close>, and the
  first read of a result field in \<open>App\<close> raises a \<open>TypeError\<close>.
\<close>

theorem useHemodynamics_returns_undefined:
  "useHemodynamics hemoExample = None \<and> App_results_bsa hemoExample = Inl TypeError"
  by (simp add: useHemodynamics_def App_results_bsa_def)

text \<open>
  C3. Every result is to be absent when one of its inputs is absent, a form entry that
  does not parse to a finite number being absent. With the wedge pressure entered as
  \<open>abc\<close> and everything else in place, mean pulmonary pressure and cardiac output are
  present, and both pulmonary resistances are NaN, not absent.
\<close>

theorem pvr_nonparsing_pcwp_not_absent:
  "clampNum (pcwp (hemoExample\<lparr>pcwp := Some ''abc''\<rparr>)) = None
   \<and> mPAP (hemoExample\<lparr>pcwp := Some ''abc''\<rparr>) = Some (Fin (80 / 3))
   \<and> co (hemoExample\<lparr>pcwp := Some ''abc''\<rparr>) = Some (Fin (250 / 52.528))
   \<and> pvr (hemoExample\<lparr>pcwp := Some ''abc''\<rparr>) = Some NaN
   \<and> pvrWU (hemoExample\<lparr>pcwp := Some ''abc''\<rparr>) = Some NaN"
  by (simp add: pvr_def pvrWU_def pcwp_update_inputs pcwp_update_co hemoExample_locals
        hemoExample_co clampNum_samples Number_js_samples [simplified] jsub_def)

text \<open>
  C4. An absent input or a zero denominator is to give an absent result, never NaN and
  never an infinity. With the wedge pressure entered as \<open>Infinity\<close>, which
  \<open>clampNum\<close> rejects, both pulmonary resistances are minus infinity; and a weight of
  \<open>-80\<close> in the hemodynamics form gives a body surface area of NaN.
\<close>

theorem pvr_infinite_pcwp_not_absent:
  "clampNum (pcwp (hemoExample\<lparr>pcwp := Some ''Infinity''\<rparr>)) = None
   \<and> pvr (hemoExample\<lparr>pcwp := Some ''Infinity''\<rparr>) = Some NInf
   \<and> pvrWU (hemoExample\<lparr>pcwp := Some ''Infinity''\<rparr>) = Some NInf
   \<and> clampNum (weightKg (hemoExample\<lparr>weightKg := Some ''-80''\<rparr>)) = Some (Fin (- 80))
   \<and> bsa (hemoExample\<lparr>weightKg := Some ''-80''\<rparr>) = Some NaN"
  by (simp add: pvr_def pvrWU_def bsa_def pcwp_update_inputs pcwp_update_co hemoExample_locals
        hemoExample_co hemoExample_fields clampNum_samples Number_js_samples [simplified]
        jsub_def)

text \<open>
  C5, as the code has it. Mean arterial pressure is present exactly when systolic and
  diastolic pressure are both present (finite numbers) and both different from zero, and
  is then DBP + (SBP - DBP) / 3; a pressure of zero counts as a missing one.
\<close>

theorem map_val_guard:
  "map_val state =
     (case (clampNum (sbp state), clampNum (dbp state)) of
        (Some (Fin s), Some (Fin d)) \<Rightarrow>
          if s \<noteq> 0 \<and> d \<noteq> 0 then Some (Fin (d + (s - d) / 3)) else None
      | _ \<Rightarrow> None)"
proof (cases "clampNum (sbp state)")
  case None
  then show ?thesis by (simp add: map_val_def)
next
  case s: (Some a)
  then obtain x where a: "a = Fin x" using clampNum_Fin by blast
  show ?thesis
  proof (cases "clampNum (dbp state)")
    case None
    with s a show ?thesis by (simp add: map_val_def)
  next
    case d: (Some b)
    then obtain y where "b = Fin y" using clampNum_Fin by blast
    with s a d show ?thesis by (simp add: map_val_def jsub_def)
  qed
qed

theorem map_val_guard_witness:
  "map_val hemoExample = Some (Fin (80 + (120 - 80) / 3))"
  using map_val_guard [of hemoExample] by (simp add: hemoExample_fields clampNum_samples)

text \<open>
  The claim as first stated makes the presence of both pressures the only guard. A
  systolic pressure entered as \<open>0\<close> is a finite number, and there is no mean pressure.
\<close>

theorem map_val_zero_sbp_absent:
  "clampNum (sbp (hemoExample\<lparr>sbp := Some ''0''\<rparr>)) = Some (Fin 0)
   \<and> clampNum (dbp (hemoExample\<lparr>sbp := Some ''0''\<rparr>)) = Some (Fin 80)
   \<and> map_val (hemoExample\<lparr>sbp := Some ''0''\<rparr>) = None"
  by (simp add: map_val_def hemoExample_fields clampNum_samples)

text \<open>
  C7. When oxygen consumption, arterial and venous oxygen content are present, they are
  finite numbers, and cardiac output is present if and only if CaO2 - CvO2 > 0; it is
  then VO2 / ((CaO2 - CvO2) \<times> 10) and strictly positive. With CaO2 \<le> CvO2 it is
  absent.
\<close>

theorem co_fick:
  assumes "vo2 state = Some V" and "caO2 state = Some A" and "cvO2 state = Some B"
  shows "\<exists>v a b. V = Fin v \<and> A = Fin a \<and> B = Fin b
           \<and> (co state \<noteq> None) = (0 < a - b)
           \<and> (0 < a - b \<longrightarrow>
                co state = Some (Fin (v / ((a - b) * 10))) \<and> 0 < v / ((a - b) * 10))
           \<and> (a \<le> b \<longrightarrow> co state = None)"
proof -
  obtain v a b where f: "V = Fin v" "0 < v" "A = Fin a" "B = Fin b"
    using assms vo2_Some caO2_Some cvO2_Some by blast
  with assms have "co state = (if 0 < a - b then Some (Fin (v / ((a - b) * 10))) else None)"
    by (simp add: co_Fin)
  with f show ?thesis by auto
qed

theorem co_fick_witness:
  "vo2 hemoExample = Some (Fin 250) \<and> caO2 hemoExample = Some (Fin 18.3848)
   \<and> cvO2 hemoExample = Some (Fin 13.132)
   \<and> co hemoExample = Some (Fin (250 / ((18.3848 - 13.132) * 10)))
   \<and> (0::real) < 250 / ((18.3848 - 13.132) * 10)"
proof -
  note h = hemoExample_vo2 hemoExample_locals(4) hemoExample_locals(5)
  from co_fick [OF h] obtain v a b
    where e: "Fin 250 = Fin v" "Fin 18.3848 = Fin a" "Fin 13.132 = Fin b"
      and c: "0 < a - b \<longrightarrow>
                co hemoExample = Some (Fin (v / ((a - b) * 10))) \<and> 0 < v / ((a - b) * 10)"
    by blast
  from e have "v = 250" "a = 18.3848" "b = 13.132"
    by simp_all
  with c have "co hemoExample = Some (Fin (250 / ((18.3848 - 13.132) * 10)))"
    by simp
  with h show ?thesis by simp
qed

text \<open>
  C10. A central venous pressure of exactly zero counts as present: when mean arterial
  pressure and cardiac output are present and the CVP field parses to the finite number
  0, they are finite numbers, cardiac output is not zero, and systemic vascular resistance
  is present and equals 80 \<times> MAP / CO.
\<close>

theorem svr_cvp_zero:
  assumes "map_val state = Some M" and "co state = Some C"
    and "clampNum (cvp state) = Some (Fin 0)"
  shows "\<exists>m c. M = Fin m \<and> C = Fin c \<and> c \<noteq> 0 \<and> svr state = Some (Fin (80 * m / c))"
proof -
  obtain m c where f: "M = Fin m" "C = Fin c" "0 < c"
    using assms map_val_Some co_Some by blast
  with assms have "svr state = Some (Fin (80 * m / c))"
    by (simp add: svr_def jsub_def)
  with f show ?thesis by auto
qed

theorem svr_cvp_zero_witness:
  "map_val hemoExample = Some (Fin (280 / 3)) \<and> co hemoExample = Some (Fin (250 / 52.528))
   \<and> clampNum (cvp hemoExample) = Some (Fin 0)
   \<and> svr hemoExample = Some (Fin (80 * (280 / 3) / (250 / 52.528)))"
proof -
  have z: "clampNum (cvp hemoExample) = Some (Fin 0)"
    by (simp add: hemoExample_fields clampNum_samples)
  from svr_cvp_zero [OF hemoExample_locals(2) hemoExample_co z] obtain m c
    where e: "Fin (280 / 3) = Fin m" "Fin (250 / 52.528) = Fin c"
      and r: "svr hemoExample = Some (Fin (80 * m / c))"
    by blast
  from e have "m = 280 / 3" "c = 250 / 52.528"
    by simp_all
  with r have "svr hemoExample = Some (Fin (80 * (280 / 3) / (250 / 52.528)))"
    by simp
  with z hemoExample_locals(2) hemoExample_co show ?thesis by simp
qed

end
